theory Spec2Isabelle
  imports Complex_Main
begin

section \<open>JavaScript values\<close>

text \<open>
  The handlers are written against \<^verbatim>\<open>any\<close>-typed values, so the model carries a
  datatype of JavaScript values: the primitives, arrays, and plain objects as lists of
  own enumerable string-keyed properties in enumeration order. A \<^verbatim>\<open>number\<close> is an
  IEEE double: not-a-number, an infinity, or a finite value (a rational; both zeros are
  \<open>Finite 0\<close>). A \<^verbatim>\<open>bigint\<close> is an unbounded integer. An instance of a class (a
  \<^verbatim>\<open>Date\<close>, a \<^verbatim>\<open>Map\<close>, a typed array) is the name of its class with its own
  enumerable string-keyed properties, as \<^verbatim>\<open>Object.entries\<close> lists them; what else it
  holds (internal slots, its prototype) is not recorded. Functions and symbols are not
  part of the datatype.
\<close>

datatype number = NaN | PosInfinity | NegInfinity | Finite rat

datatype jsval =
    JUndefined
  | JNull
  | JBoolean bool
  | JNumber number
  | JString string
  | JBigInt int
  | JArray "jsval list"
  | JObject "(string \<times> jsval) list"
  | JInstance string "(string \<times> jsval) list"

text \<open>JavaScript truthiness, as \<^verbatim>\<open>!x\<close> and \<^verbatim>\<open>a || b\<close> read it.\<close>

fun truthy :: "jsval \<Rightarrow> bool" where
  "truthy JUndefined = False"
| "truthy JNull = False"
| "truthy (JBoolean b) = b"
| "truthy (JNumber n) = (n \<noteq> NaN \<and> n \<noteq> Finite 0)"
| "truthy (JString s) = (s \<noteq> [])"
| "truthy (JBigInt i) = (i \<noteq> 0)"
| "truthy (JArray xs) = True"
| "truthy (JObject ps) = True"
| "truthy (JInstance c ps) = True"

text \<open>\<^verbatim>\<open>null\<close> and \<^verbatim>\<open>undefined\<close>: the values that have no properties to read.\<close>

definition nullish :: "jsval \<Rightarrow> bool" where
  "nullish v = (v = JUndefined \<or> v = JNull)"

text \<open>
  \<^verbatim>\<open>obj[key] = value\<close> on an object with string keys that are not array indices: an
  existing property keeps its place, a new one goes last. \<^verbatim>\<open>delete obj[key]\<close> removes
  the property.
\<close>

fun set_property :: "(string \<times> 'a) list \<Rightarrow> string \<Rightarrow> 'a \<Rightarrow> (string \<times> 'a) list" where
  "set_property [] k v = [(k, v)]"
| "set_property (p # ps) k v = (if fst p = k then (k, v) # ps else p # set_property ps k v)"

definition delete_property :: "(string \<times> 'a) list \<Rightarrow> string \<Rightarrow> (string \<times> 'a) list" where
  "delete_property obj k = filter (\<lambda>p. fst p \<noteq> k) obj"


text \<open>
  Reading \<^verbatim>\<open>obj[key]\<close> from an object literal \<^verbatim>\<open>{}\<close> finds the object's own
  property, or else whatever \<^verbatim>\<open>Object.prototype\<close> holds under that name (its twelve
  members are functions, and \<^verbatim>\<open>__proto__\<close> the prototype object: all truthy), or
  else \<^verbatim>\<open>undefined\<close>.
\<close>

definition Object_prototype_names :: "string list" where
  "Object_prototype_names =
     [''constructor'', ''__defineGetter__'', ''__defineSetter__'', ''hasOwnProperty'',
      ''__lookupGetter__'', ''__lookupSetter__'', ''isPrototypeOf'', ''propertyIsEnumerable'',
      ''toString'', ''valueOf'', ''__proto__'', ''toLocaleString'']"

datatype 'a lookup = Own 'a | Inherited | Absent

definition js_lookup :: "(string \<times> 'a) list \<Rightarrow> string \<Rightarrow> 'a lookup" where
  "js_lookup obj k =
     (case map_of obj k of
        Some v \<Rightarrow> Own v
      | None \<Rightarrow> if List.member Object_prototype_names k then Inherited else Absent)"

text \<open>
  \<^verbatim>\<open>String.prototype.toLowerCase\<close> on the ASCII letters. Code units outside ASCII are
  left as they are. The only one of them whose lower case is an ASCII letter is the Kelvin
  sign (lower case \<^verbatim>\<open>k\<close>), and the literals that results are compared with below hold
  no \<^verbatim>\<open>k\<close>, so those comparisons are not affected.
\<close>

definition char_toLowerCase :: "char \<Rightarrow> char" where
  "char_toLowerCase c =
     (case map_of (zip ''ABCDEFGHIJKLMNOPQRSTUVWXYZ'' ''abcdefghijklmnopqrstuvwxyz'') c of
        Some l \<Rightarrow> l
      | None \<Rightarrow> c)"

definition toLowerCase :: "string \<Rightarrow> string" where
  "toLowerCase s = map char_toLowerCase s"

section \<open>Serialising big integers (DAO service)\<close>






text \<open>
  The seven public methods of \<^verbatim>\<open>DaoService\<close>. In each, the \<^verbatim>\<open>try\<close> block reads the
  configuration and calls the contract; that part is an external collaborator, and its
  outcome is the last argument: it returns a result (\<open>Inr\<close>) or throws (\<open>Inl\<close>). A
  result goes through \<open>serializeBigInts\<close> into \<^verbatim>\<open>data\<close>; the \<^verbatim>\<open>catch\<close> block
  reports \<^verbatim>\<open>error instanceof Error ? error.message : 'Unknown error occurred'\<close>.
\<close>

datatype thrown_value = Error string | NotAnError










subsection \<open>What the serialiser is meant to compute\<close>







section \<open>Wallet facade: receipt verification\<close>

text \<open>
  The error kinds of the wallet facade (\<^verbatim>\<open>enum MCPErrorType\<close>) and its error class
  (\<^verbatim>\<open>class MCPError\<close>, a kind together with a message).
\<close>

datatype MCPErrorType =
    WALLET_NOT_READY
  | INSUFFICIENT_FUNDS
  | TX_SUBMISSION_FAILED
  | TX_NOT_FOUND
  | IDENTIFIER_VERIFICATION_FAILED

datatype MCPError = MCPError (mcp_type: MCPErrorType) (mcp_message: string)

record syncStatus =
  syncedIndices :: int
  totalIndices :: int
  isFullySynced :: bool

text \<open>What \<^verbatim>\<open>wallet.hasReceivedTransactionByIdentifier\<close> returns.\<close>

record walletVerification =
  w_exists :: bool
  w_syncedIndices :: int
  w_totalIndices :: int
  w_isFullySynced :: bool

record verificationResult =
  exists :: bool
  syncStatus :: syncStatus

text \<open>
  The wallet manager is an external collaborator. Its two operations used here are
  parameters: \<open>isReady\<close> is the value of \<^verbatim>\<open>wallet.isReady(false)\<close>, and the query
  either throws (\<open>Inl\<close>, carrying the text that
  \<^verbatim>\<open>error instanceof Error ? error.message : String(error)\<close> evaluates to) or returns.
\<close>

record wallet =
  isReady :: bool
  hasReceivedTransactionByIdentifier :: "string \<Rightarrow> string + walletVerification"

definition confirmTransactionHasBeenReceived ::
    "wallet \<Rightarrow> string \<Rightarrow> MCPError + verificationResult" where
  "confirmTransactionHasBeenReceived wallet identifier =
     (if \<not> isReady wallet then Inl (MCPError WALLET_NOT_READY ''Wallet is not ready'')
      else case hasReceivedTransactionByIdentifier wallet identifier of
          Inr result \<Rightarrow>
            Inr \<lparr> exists = w_exists result,
                  syncStatus = \<lparr> syncedIndices = w_syncedIndices result,
                                 totalIndices = w_totalIndices result,
                                 isFullySynced = w_isFullySynced result \<rparr> \<rparr>
        | Inl message \<Rightarrow>
            Inl (MCPError IDENTIFIER_VERIFICATION_FAILED
                  (''Failed to verify transaction with identifier: '' @ message)))"

section \<open>Tool registry and dispatch\<close>

text \<open>
  The error codes of the protocol SDK (\<^verbatim>\<open>ErrorCode\<close> of
  \<^verbatim>\<open>@modelcontextprotocol/sdk/types.js\<close>) with their JSON-RPC numbers. The dispatcher
  only ever constructs \<^verbatim>\<open>ErrorCode.InvalidParams\<close>.
\<close>

datatype ErrorCode =
    ConnectionClosed
  | RequestTimeout
  | ParseError
  | InvalidRequest
  | MethodNotFound
  | InvalidParams
  | InternalError

fun error_number :: "ErrorCode \<Rightarrow> int" where
  "error_number ConnectionClosed = - 32000"
| "error_number RequestTimeout = - 32001"
| "error_number ParseError = - 32700"
| "error_number InvalidRequest = - 32600"
| "error_number MethodNotFound = - 32601"
| "error_number InvalidParams = - 32602"
| "error_number InternalError = - 32603"

text \<open>
  What \<^verbatim>\<open>handleToolCall\<close> can throw: an \<^verbatim>\<open>McpError\<close> of its own, a
  \<^verbatim>\<open>TypeError\<close> of the language (a method call on a value that has no such method),
  or whatever the HTTP client rejected with.
\<close>

datatype thrown = McpError ErrorCode string | TypeError string | HttpClientError string

fun thrown_code :: "thrown \<Rightarrow> ErrorCode option" where
  "thrown_code (McpError c m) = Some c"
| "thrown_code e = None"

text \<open>
  A request to the wallet server. A path written as a template literal keeps the
  interpolated argument as a part of its own.
\<close>

datatype path_part = Lit string | Arg jsval

datatype http_request = HttpGet "path_part list" | HttpPost "path_part list" jsval

text \<open>
  The HTTP client is an external collaborator with state of its own (the wallet server and
  its transaction records, \<open>'w\<close>): a call returns a value or throws, and may change that
  state.
\<close>

type_synonym 'w http_client = "http_request \<Rightarrow> 'w \<Rightarrow> (thrown + jsval) \<times> 'w"

text \<open>
  The success envelope
  \<^verbatim>\<open>{content: [{type: "text", text: JSON.stringify(v, null, 2), mimeType: "application/json"}]}\<close>.
\<close>

datatype json_text = JSON_stringify jsval

record content_item =
  item_type :: string
  item_text :: json_text
  mimeType :: string

record tool_result =
  content :: "content_item list"

definition json_content :: "jsval \<Rightarrow> tool_result" where
  "json_content v =
     \<lparr> content = [\<lparr> item_type = ''text'', item_text = JSON_stringify v,
                     mimeType = ''application/json'' \<rparr>] \<rparr>"

text \<open>\<^verbatim>\<open>const r = await httpClient.get/post(...); return {content: ...}\<close>\<close>

definition call_backend ::
    "'w http_client \<Rightarrow> http_request \<Rightarrow> 'w \<Rightarrow> (thrown + tool_result) \<times> 'w" where
  "call_backend http rq w =
     (case http rq w of
        (Inl e, w') \<Rightarrow> (Inl e, w')
      | (Inr v, w') \<Rightarrow> (Inr (json_content v), w'))"

text \<open>
  \<^verbatim>\<open>const { a, b } = toolArgs\<close>, with \<^verbatim>\<open>toolArgs: any\<close>. Destructuring
  \<^verbatim>\<open>undefined\<close> or \<^verbatim>\<open>null\<close> throws a \<^verbatim>\<open>TypeError\<close> that names the first property of
  the pattern. On any other value each property is read: an object gives its own
  property or \<^verbatim>\<open>undefined\<close>; a primitive or an array has none of the names read here
  (nor has any built-in prototype), so it gives \<^verbatim>\<open>undefined\<close>.
\<close>

definition quoted :: "string \<Rightarrow> string" where
  "quoted s = [CHR 0x27] @ s @ [CHR 0x27]"

definition cannot_destructure :: "string \<Rightarrow> jsval \<Rightarrow> thrown" where
  "cannot_destructure property toolArgs =
     TypeError (''Cannot destructure property '' @ quoted property @ '' of '' @
                quoted ''toolArgs'' @ '' as it is '' @
                (if toolArgs = JNull then ''null'' else ''undefined'') @ ''.'')"

definition field :: "jsval \<Rightarrow> string \<Rightarrow> jsval" where
  "field toolArgs k =
     (case toolArgs of
        JObject ps \<Rightarrow> (case map_of ps k of Some v \<Rightarrow> v | None \<Rightarrow> JUndefined)
      | JInstance c ps \<Rightarrow> (case map_of ps k of Some v \<Rightarrow> v | None \<Rightarrow> JUndefined)
      | _ \<Rightarrow> JUndefined)"

text \<open>
  \<^verbatim>\<open>x.toLowerCase() === 'native' || x.toLowerCase() === 'tdust' || x.toLowerCase() === 'dust'\<close>
  for a truthy \<open>x\<close> held in the named variable: only a string has the method.
\<close>

definition names_native :: "string \<Rightarrow> jsval \<Rightarrow> thrown + bool" where
  "names_native variable x =
     (case x of
        JString s \<Rightarrow>
          Inr (toLowerCase s = ''native'' \<or> toLowerCase s = ''tdust'' \<or> toLowerCase s = ''dust'')
      | _ \<Rightarrow> Inl (TypeError (variable @ ''.toLowerCase is not a function'')))"

text \<open>The descriptors of \<^verbatim>\<open>ALL_TOOLS\<close>: each tool's name and its \<^verbatim>\<open>required\<close> fields.\<close>

record tool_descriptor =
  tool_name :: string
  required :: "string list"

definition ALL_TOOLS :: "tool_descriptor list" where
  "ALL_TOOLS =
     [\<lparr> tool_name = ''walletStatus'', required = [] \<rparr>,
      \<lparr> tool_name = ''walletAddress'', required = [] \<rparr>,
      \<lparr> tool_name = ''walletBalance'', required = [] \<rparr>,
      \<lparr> tool_name = ''send'', required = [''destinationAddress'', ''amount''] \<rparr>,
      \<lparr> tool_name = ''verifyTransaction'', required = [''identifier''] \<rparr>,
      \<lparr> tool_name = ''getTransactionStatus'', required = [''transactionId''] \<rparr>,
      \<lparr> tool_name = ''getTransactions'', required = [] \<rparr>,
      \<lparr> tool_name = ''getWalletConfig'', required = [] \<rparr>,
      \<lparr> tool_name = ''getTokenBalance'', required = [''tokenName''] \<rparr>,
      \<lparr> tool_name = ''registerInMarketplace'', required = [''userId'', ''userData''] \<rparr>,
      \<lparr> tool_name = ''verifyUserInMarketplace'', required = [''userId'', ''verificationData''] \<rparr>,
      \<lparr> tool_name = ''openDaoElection'', required = [''contractAddress'', ''electionId''] \<rparr>,
      \<lparr> tool_name = ''closeDaoElection'', required = [''contractAddress''] \<rparr>,
      \<lparr> tool_name = ''castDaoVote'',
        required = [''contractAddress'', ''voteType'', ''voteCoinNonce'', ''voteCoinColor'',
                    ''voteCoinValue''] \<rparr>,
      \<lparr> tool_name = ''fundDaoTreasury'',
        required = [''contractAddress'', ''fundCoinNonce'', ''fundCoinColor'', ''fundCoinValue''] \<rparr>,
      \<lparr> tool_name = ''payoutDaoProposal'', required = [''contractAddress''] \<rparr>,
      \<lparr> tool_name = ''getDaoElectionStatus'', required = [''contractAddress''] \<rparr>,
      \<lparr> tool_name = ''getDaoState'', required = [''contractAddress''] \<rparr>]"

text \<open>The labels of the \<^verbatim>\<open>switch (toolName)\<close> of \<^verbatim>\<open>handleToolCall\<close>, in its order.\<close>

definition handled_tools :: "string list" where
  "handled_tools =
     [''walletStatus'', ''walletAddress'', ''walletBalance'', ''send'', ''verifyTransaction'',
      ''getTransactionStatus'', ''getTransactions'', ''getPendingTransactions'',
      ''getWalletConfig'', ''getTokenBalance'', ''registerInMarketplace'',
      ''verifyUserInMarketplace'', ''openDaoElection'', ''closeDaoElection'', ''castDaoVote'',
      ''fundDaoTreasury'', ''payoutDaoProposal'', ''getDaoElectionStatus'', ''getDaoState'']"

text \<open>
  The cases of the switch that read arguments, one definition each: the destructuring
  first, then the check of the required values, then the request. The enclosing
  \<^verbatim>\<open>try { ... } catch (error) { log(...); throw error; }\<close> logs and rethrows, so what is
  thrown inside is what the caller gets.
\<close>

definition tool_send ::
    "'w http_client \<Rightarrow> jsval \<Rightarrow> 'w \<Rightarrow> (thrown + tool_result) \<times> 'w" where
  "tool_send http toolArgs w =
     (if nullish toolArgs then (Inl (cannot_destructure ''destinationAddress'' toolArgs), w) else
      let destinationAddress = field toolArgs ''destinationAddress'';
          amount = field toolArgs ''amount'';
          token = field toolArgs ''token''
      in if \<not> truthy destinationAddress \<or> \<not> truthy amount then
           (Inl (McpError InvalidParams
                  ''Missing required parameters: destinationAddress and amount''), w)
         else
           (case (if \<not> truthy token then Inr True else names_native ''token'' token) of
              Inl e \<Rightarrow> (Inl e, w)
            | Inr isNativeToken \<Rightarrow>
                if isNativeToken then
                  call_backend http
                    (HttpPost [Lit ''/wallet/send'']
                       (JObject [(''destinationAddress'', destinationAddress),
                                 (''amount'', amount)])) w
                else
                  call_backend http
                    (HttpPost [Lit ''/wallet/tokens/send'']
                       (JObject [(''tokenName'', token), (''toAddress'', destinationAddress),
                                 (''amount'', amount)])) w))"

definition tool_verifyTransaction ::
    "'w http_client \<Rightarrow> jsval \<Rightarrow> 'w \<Rightarrow> (thrown + tool_result) \<times> 'w" where
  "tool_verifyTransaction http toolArgs w =
     (if nullish toolArgs then (Inl (cannot_destructure ''identifier'' toolArgs), w) else
      let identifier = field toolArgs ''identifier''
      in if \<not> truthy identifier then
           (Inl (McpError InvalidParams ''Missing required parameter: identifier''), w)
         else
           call_backend http
             (HttpPost [Lit ''/wallet/verify-transaction'']
                (JObject [(''identifier'', identifier)])) w)"

definition tool_getTransactionStatus ::
    "'w http_client \<Rightarrow> jsval \<Rightarrow> 'w \<Rightarrow> (thrown + tool_result) \<times> 'w" where
  "tool_getTransactionStatus http toolArgs w =
     (if nullish toolArgs then (Inl (cannot_destructure ''transactionId'' toolArgs), w) else
      let transactionId = field toolArgs ''transactionId''
      in if \<not> truthy transactionId then
           (Inl (McpError InvalidParams ''Missing required parameter: transactionId''), w)
         else
           call_backend http (HttpGet [Lit ''/wallet/transaction/'', Arg transactionId]) w)"

definition tool_getTokenBalance ::
    "'w http_client \<Rightarrow> jsval \<Rightarrow> 'w \<Rightarrow> (thrown + tool_result) \<times> 'w" where
  "tool_getTokenBalance http toolArgs w =
     (if nullish toolArgs then (Inl (cannot_destructure ''tokenName'' toolArgs), w) else
      let balanceTokenName = field toolArgs ''tokenName''
      in if \<not> truthy balanceTokenName then
           (Inl (McpError InvalidParams ''Missing required parameter: tokenName''), w)
         else
           (case names_native ''balanceTokenName'' balanceTokenName of
              Inl e \<Rightarrow> (Inl e, w)
            | Inr isNativeTokenBalance \<Rightarrow>
                if isNativeTokenBalance then call_backend http (HttpGet [Lit ''/wallet/balance'']) w
                else
                  call_backend http
                    (HttpGet [Lit ''/wallet/tokens/balance/'', Arg balanceTokenName]) w))"

definition tool_registerInMarketplace ::
    "'w http_client \<Rightarrow> jsval \<Rightarrow> 'w \<Rightarrow> (thrown + tool_result) \<times> 'w" where
  "tool_registerInMarketplace http toolArgs w =
     (if nullish toolArgs then (Inl (cannot_destructure ''userId'' toolArgs), w) else
      let userId = field toolArgs ''userId'';
          userData = field toolArgs ''userData''
      in if \<not> truthy userId \<or> \<not> truthy userData then
           (Inl (McpError InvalidParams ''Missing required parameters: userId and userData''), w)
         else
           call_backend http
             (HttpPost [Lit ''/marketplace/register'']
                (JObject [(''userId'', userId), (''userData'', userData)])) w)"

definition tool_verifyUserInMarketplace ::
    "'w http_client \<Rightarrow> jsval \<Rightarrow> 'w \<Rightarrow> (thrown + tool_result) \<times> 'w" where
  "tool_verifyUserInMarketplace http toolArgs w =
     (if nullish toolArgs then (Inl (cannot_destructure ''userId'' toolArgs), w) else
      let verifyUserId = field toolArgs ''userId'';
          verificationData = field toolArgs ''verificationData''
      in if \<not> truthy verifyUserId \<or> \<not> truthy verificationData then
           (Inl (McpError InvalidParams
                  ''Missing required parameters: userId and verificationData''), w)
         else
           call_backend http
             (HttpPost [Lit ''/marketplace/verify'']
                (JObject [(''userId'', verifyUserId), (''verificationData'', verificationData)])) w)"

definition tool_openDaoElection ::
    "'w http_client \<Rightarrow> jsval \<Rightarrow> 'w \<Rightarrow> (thrown + tool_result) \<times> 'w" where
  "tool_openDaoElection http toolArgs w =
     (if nullish toolArgs then (Inl (cannot_destructure ''contractAddress'' toolArgs), w) else
      let openContractAddress = field toolArgs ''contractAddress'';
          electionId = field toolArgs ''electionId''
      in if \<not> truthy openContractAddress \<or> \<not> truthy electionId then
           (Inl (McpError InvalidParams
                  ''Missing required parameters: contractAddress and electionId''), w)
         else
           call_backend http
             (HttpPost [Lit ''/dao/open-election'']
                (JObject [(''contractAddress'', openContractAddress),
                          (''electionId'', electionId)])) w)"

definition tool_castDaoVote ::
    "'w http_client \<Rightarrow> jsval \<Rightarrow> 'w \<Rightarrow> (thrown + tool_result) \<times> 'w" where
  "tool_castDaoVote http toolArgs w =
     (if nullish toolArgs then (Inl (cannot_destructure ''contractAddress'' toolArgs), w) else
      let voteContractAddress = field toolArgs ''contractAddress'';
          voteType = field toolArgs ''voteType'';
          voteCoinNonce = field toolArgs ''voteCoinNonce'';
          voteCoinColor = field toolArgs ''voteCoinColor'';
          voteCoinValue = field toolArgs ''voteCoinValue''
      in if \<not> truthy voteContractAddress \<or> \<not> truthy voteType \<or> \<not> truthy voteCoinNonce
            \<or> \<not> truthy voteCoinColor \<or> \<not> truthy voteCoinValue then
           (Inl (McpError InvalidParams
                  ''Missing required parameters: contractAddress, voteType, voteCoinNonce, voteCoinColor, voteCoinValue''),
            w)
         else
           call_backend http
             (HttpPost [Lit ''/dao/cast-vote'']
                (JObject [(''contractAddress'', voteContractAddress), (''voteType'', voteType),
                          (''voteCoin'',
                           JObject [(''nonce'', voteCoinNonce), (''color'', voteCoinColor),
                                    (''value'', voteCoinValue)])])) w)"

definition tool_fundDaoTreasury ::
    "'w http_client \<Rightarrow> jsval \<Rightarrow> 'w \<Rightarrow> (thrown + tool_result) \<times> 'w" where
  "tool_fundDaoTreasury http toolArgs w =
     (if nullish toolArgs then (Inl (cannot_destructure ''contractAddress'' toolArgs), w) else
      let fundContractAddress = field toolArgs ''contractAddress'';
          fundCoinNonce = field toolArgs ''fundCoinNonce'';
          fundCoinColor = field toolArgs ''fundCoinColor'';
          fundCoinValue = field toolArgs ''fundCoinValue''
      in if \<not> truthy fundContractAddress \<or> \<not> truthy fundCoinNonce \<or> \<not> truthy fundCoinColor
            \<or> \<not> truthy fundCoinValue then
           (Inl (McpError InvalidParams
                  ''Missing required parameters: contractAddress, fundCoinNonce, fundCoinColor, fundCoinValue''),
            w)
         else
           call_backend http
             (HttpPost [Lit ''/dao/fund-treasury'']
                (JObject [(''contractAddress'', fundContractAddress),
                          (''fundCoin'',
                           JObject [(''nonce'', fundCoinNonce), (''color'', fundCoinColor),
                                    (''value'', fundCoinValue)])])) w)"

text \<open>
  Four cases (\<^verbatim>\<open>closeDaoElection\<close>, \<^verbatim>\<open>payoutDaoProposal\<close>, \<^verbatim>\<open>getDaoElectionStatus\<close>,
  \<^verbatim>\<open>getDaoState\<close>) read the one argument \<^verbatim>\<open>contractAddress\<close> and differ in the
  request they make of it.
\<close>

definition tool_contractAddress ::
    "(jsval \<Rightarrow> http_request) \<Rightarrow> 'w http_client \<Rightarrow> jsval \<Rightarrow> 'w
       \<Rightarrow> (thrown + tool_result) \<times> 'w" where
  "tool_contractAddress request_of http toolArgs w =
     (if nullish toolArgs then (Inl (cannot_destructure ''contractAddress'' toolArgs), w) else
      let contractAddress = field toolArgs ''contractAddress''
      in if \<not> truthy contractAddress then
           (Inl (McpError InvalidParams ''Missing required parameter: contractAddress''), w)
         else call_backend http (request_of contractAddress) w)"

definition handleToolCall ::
    "'w http_client \<Rightarrow> string \<Rightarrow> jsval \<Rightarrow> 'w \<Rightarrow> (thrown + tool_result) \<times> 'w" where
  "handleToolCall http toolName toolArgs w =
     (if toolName = ''walletStatus'' then call_backend http (HttpGet [Lit ''/wallet/status'']) w
      else if toolName = ''walletAddress'' then
        call_backend http (HttpGet [Lit ''/wallet/address'']) w
      else if toolName = ''walletBalance'' then
        call_backend http (HttpGet [Lit ''/wallet/balance'']) w
      else if toolName = ''send'' then tool_send http toolArgs w
      else if toolName = ''verifyTransaction'' then tool_verifyTransaction http toolArgs w
      else if toolName = ''getTransactionStatus'' then tool_getTransactionStatus http toolArgs w
      else if toolName = ''getTransactions'' then
        call_backend http (HttpGet [Lit ''/wallet/transactions'']) w
      else if toolName = ''getPendingTransactions'' then
        call_backend http (HttpGet [Lit ''/wallet/pending-transactions'']) w
      else if toolName = ''getWalletConfig'' then
        call_backend http (HttpGet [Lit ''/wallet/config'']) w
      else if toolName = ''getTokenBalance'' then tool_getTokenBalance http toolArgs w
      else if toolName = ''registerInMarketplace'' then
        tool_registerInMarketplace http toolArgs w
      else if toolName = ''verifyUserInMarketplace'' then
        tool_verifyUserInMarketplace http toolArgs w
      else if toolName = ''openDaoElection'' then tool_openDaoElection http toolArgs w
      else if toolName = ''closeDaoElection'' then
        tool_contractAddress
          (\<lambda>a. HttpPost [Lit ''/dao/close-election''] (JObject [(''contractAddress'', a)]))
          http toolArgs w
      else if toolName = ''castDaoVote'' then tool_castDaoVote http toolArgs w
      else if toolName = ''fundDaoTreasury'' then tool_fundDaoTreasury http toolArgs w
      else if toolName = ''payoutDaoProposal'' then
        tool_contractAddress
          (\<lambda>a. HttpPost [Lit ''/dao/payout-proposal''] (JObject [(''contractAddress'', a)]))
          http toolArgs w
      else if toolName = ''getDaoElectionStatus'' then
        tool_contractAddress (\<lambda>a. HttpGet [Lit ''/dao/election-status/'', Arg a]) http toolArgs w
      else if toolName = ''getDaoState'' then
        tool_contractAddress (\<lambda>a. HttpGet [Lit ''/dao/state/'', Arg a]) http toolArgs w
      else (Inl (McpError InvalidParams (''Unknown tool: '' @ toolName)), w))"

text \<open>
  A client that answers every request with \<^verbatim>\<open>null\<close> and keeps the list of requests
  it was sent: the state after a dispatch shows which calls were made.
\<close>

definition recording_client :: "(http_request list) http_client" where
  "recording_client rq sent = (Inr JNull, sent @ [rq])"

section \<open>Protocol gateway\<close>

subsection \<open>Configuration, requests, responses\<close>

text \<open>
  \<^verbatim>\<open>shouldCheckAuth = process.env.CHECK_AUTH === 'true'\<close> and
  \<^verbatim>\<open>API_KEY = process.env.API_KEY\<close>. The module throws while loading when the check is on
  and no key is set, so a running gateway satisfies \<open>config_ok\<close>.
\<close>

record config =
  shouldCheckAuth :: bool
  API_KEY :: "string option"

definition config_ok :: "config \<Rightarrow> bool" where
  "config_ok cfg = (if shouldCheckAuth cfg then API_KEY cfg \<noteq> None \<and> API_KEY cfg \<noteq> Some [] else True)"

text \<open>
  What the handlers read of a request: the verb, the headers, the \<^verbatim>\<open>sessionId\<close> query
  parameter, and the parsed body.
\<close>

record request =
  verb :: string
  headers :: "string \<rightharpoonup> string"
  query_sessionId :: "string option"
  body :: jsval

text \<open>
  A response is a JSON-RPC error object sent with a status
  (\<^verbatim>\<open>res.status(s).json({jsonrpc: '2.0', error: {code, message, data?}, id})\<close>), a plain
  text sent with a status, whatever the SDK transport wrote, or the open event stream.
\<close>

datatype response =
    JsonRpcError (err_status: nat) (err_code: int) (err_message: string)
      (err_data: "string option") (err_id: jsval)
  | PlainText nat string
  | FromTransport
  | EventStream

fun is_error :: "response \<Rightarrow> bool" where
  "is_error (JsonRpcError s c m d i) = True"
| "is_error (PlainText s t) = (400 \<le> s)"
| "is_error FromTransport = False"
| "is_error EventStream = False"

text \<open>\<^verbatim>\<open>req.body?.id || null\<close>\<close>

definition body_id :: "request \<Rightarrow> jsval" where
  "body_id req =
     (case body req of
        JObject ps \<Rightarrow>
          (case map_of ps ''id'' of Some v \<Rightarrow> if truthy v then v else JNull | None \<Rightarrow> JNull)
      | _ \<Rightarrow> JNull)"

text \<open>
  \<^verbatim>\<open>const authHeader = req.headers['Authorization'] || req.headers['authorization'];\<close>
  \<^verbatim>\<open>if (shouldCheckAuth && authHeader !== `Bearer ${API_KEY}`) ...\<close>
\<close>

definition authHeader :: "request \<Rightarrow> string option" where
  "authHeader req =
     (case headers req ''Authorization'' of
        Some v \<Rightarrow> if v \<noteq> [] then Some v else headers req ''authorization''
      | None \<Rightarrow> headers req ''authorization'')"

definition bearer :: "config \<Rightarrow> string" where
  "bearer cfg = ''Bearer '' @ (case API_KEY cfg of Some k \<Rightarrow> k | None \<Rightarrow> ''undefined'')"

definition unauthorized :: "config \<Rightarrow> request \<Rightarrow> bool" where
  "unauthorized cfg req = (shouldCheckAuth cfg \<and> authHeader req \<noteq> Some (bearer cfg))"

subsection \<open>Session registry\<close>

text \<open>
  \<^verbatim>\<open>const transports = { streamable: {}, sse: {} }\<close>: two object literals used as
  dictionaries from session id to transport. A transport object is an SDK object; the
  model keeps the one field the gateway reads, its \<^verbatim>\<open>sessionId\<close>.
\<close>

record transport =
  sessionId :: "string option"

record transports =
  streamable :: "(string \<times> transport) list"
  sse :: "(string \<times> transport) list"

text \<open>\<^verbatim>\<open>sessionId && transports.streamable[sessionId]\<close>, by what it evaluates to.\<close>

definition present :: "string option \<Rightarrow> bool" where
  "present sid = (case sid of Some s \<Rightarrow> s \<noteq> [] | None \<Rightarrow> False)"

definition lookup_session :: "(string \<times> transport) list \<Rightarrow> string option \<Rightarrow> transport lookup" where
  "lookup_session registry sid =
     (case sid of
        Some s \<Rightarrow> if s \<noteq> [] then js_lookup registry s else Absent
      | None \<Rightarrow> Absent)"

text \<open>
  The \<^verbatim>\<open>onclose\<close> callback the gateway installs on a stream transport:
  \<^verbatim>\<open>if (transport.sessionId) delete transports.streamable[transport.sessionId]\<close>.
\<close>

definition onclose :: "transport \<Rightarrow> transports \<Rightarrow> transports" where
  "onclose t ts =
     (if present (sessionId t)
      then ts\<lparr>streamable := delete_property (streamable ts) (the (sessionId t))\<rparr>
      else ts)"

subsection \<open>The stream endpoint\<close>

text \<open>
  The SDK is an external collaborator; what it does with one request is a parameter.
  \<^item> \<open>isInitializeRequest\<close> is the SDK's predicate on bodies.
  \<^item> \<open>connect_error\<close>: \<^verbatim>\<open>server.connect(transport)\<close> resolves (\<open>None\<close>) or rejects.
  \<^item> \<open>fresh_outcome\<close>: what \<^verbatim>\<open>handleRequest\<close> of a transport created for this request
    does: it initialises the session under a generated id and calls
    \<^verbatim>\<open>onsessioninitialized\<close>, or answers without doing so, or throws (with the response
    headers sent or not).
  \<^item> \<open>bound_outcome\<close>: what \<^verbatim>\<open>handleRequest\<close> of a registered transport does: it
    answers, or closes the transport (which calls \<^verbatim>\<open>onclose\<close>), or throws. A registered
    transport is initialised already; by the SDK's contract it never initialises again.
\<close>

datatype fresh_outcome = Initialized string | NotInitialized | FreshThrew bool

datatype bound_outcome = Answered | Closed | BoundThrew bool

record mcp_env =
  isInitializeRequest :: "jsval \<Rightarrow> bool"
  connect_error :: "string option"
  fresh :: fresh_outcome
  bound :: bound_outcome

definition internal_server_error :: response where
  "internal_server_error = JsonRpcError 500 (- 32603) ''Internal server error'' None JNull"

text \<open>
  \<^verbatim>\<open>req.body.params?._meta?.progressToken\<close> throws when the body is null or undefined
  (\<open>nullish\<close>).
\<close>

definition app_mcp :: "config \<Rightarrow> mcp_env \<Rightarrow> request \<Rightarrow> transports \<Rightarrow> response \<times> transports" where
  "app_mcp cfg env req ts =
     (if unauthorized cfg req then (JsonRpcError 401 (- 32000) ''Unauthorized'' None JNull, ts)
      else
        let sid = headers req ''mcp-session-id'' in
        if verb req = ''GET'' \<or> verb req = ''DELETE'' then
          (case lookup_session (streamable ts) sid of
             Absent \<Rightarrow> (PlainText 400 ''Invalid or missing session ID'', ts)
           | Inherited \<Rightarrow> (PlainText 500 (''Error processing '' @ verb req @ '' request''), ts)
           | Own t \<Rightarrow>
               (case bound env of
                  Answered \<Rightarrow> (FromTransport, ts)
                | Closed \<Rightarrow> (FromTransport, onclose t ts)
                | BoundThrew headersSent \<Rightarrow>
                    (if headersSent then FromTransport
                     else PlainText 500 (''Error processing '' @ verb req @ '' request''), ts)))
        else
          (case lookup_session (streamable ts) sid of
             Own t \<Rightarrow>
               (if nullish (body req) then (internal_server_error, ts)
                else case bound env of
                  Answered \<Rightarrow> (FromTransport, ts)
                | Closed \<Rightarrow> (FromTransport, onclose t ts)
                | BoundThrew headersSent \<Rightarrow>
                    (if headersSent then FromTransport else internal_server_error, ts))
           | Inherited \<Rightarrow> (internal_server_error, ts)
           | Absent \<Rightarrow>
               (if \<not> present sid \<and> isInitializeRequest env (body req) then
                  (case connect_error env of
                     Some e \<Rightarrow> (internal_server_error, ts)
                   | None \<Rightarrow>
                       if nullish (body req) then (internal_server_error, ts)
                       else case fresh env of
                         Initialized newSessionId \<Rightarrow>
                           (FromTransport,
                            ts\<lparr>streamable :=
                                 set_property (streamable ts) newSessionId
                                   \<lparr>sessionId = Some newSessionId\<rparr>\<rparr>)
                       | NotInitialized \<Rightarrow> (FromTransport, ts)
                       | FreshThrew headersSent \<Rightarrow>
                           (if headersSent then FromTransport else internal_server_error, ts))
                else
                  (JsonRpcError 400 (- 32000) ''Bad Request: No valid session ID provided''
                     None JNull, ts))))"

subsection \<open>The push-pair endpoints\<close>

text \<open>
  \<^verbatim>\<open>GET /sse\<close>: a transport with a generated session id is registered, then connected.
  \<open>new_sessionId\<close> is the id the SDK generated; connecting succeeds or throws, with the
  response headers sent or not. The handler reads neither the configuration nor the
  \<^verbatim>\<open>Authorization\<close> header.
\<close>

datatype connect_outcome = Connected | ConnectThrew bool

record sse_env =
  new_sessionId :: string
  sse_connect :: connect_outcome

definition app_sse :: "sse_env \<Rightarrow> request \<Rightarrow> transports \<Rightarrow> response \<times> transports" where
  "app_sse env req ts =
     (let ts' = ts\<lparr>sse := set_property (sse ts) (new_sessionId env)
                              \<lparr>sessionId = Some (new_sessionId env)\<rparr>\<rparr>
      in case sse_connect env of
           Connected \<Rightarrow> (EventStream, ts')
         | ConnectThrew headersSent \<Rightarrow>
             (if headersSent then EventStream
              else PlainText 500 ''Error establishing SSE connection'', ts'))"

text \<open>\<^verbatim>\<open>res.on('close', () => { delete transports.sse[transport.sessionId]; })\<close>\<close>

definition sse_connection_closed :: "string \<Rightarrow> transports \<Rightarrow> transports" where
  "sse_connection_closed sid ts = ts\<lparr>sse := delete_property (sse ts) sid\<rparr>"

text \<open>
  \<^verbatim>\<open>POST /messages\<close>. \<open>post_outcome\<close> is what \<^verbatim>\<open>transport.handlePostMessage\<close> does:
  it answers, or throws a value whose text
  (\<^verbatim>\<open>error instanceof Error ? error.message : String(error)\<close>) is given, with the
  response headers sent or not. The key of the lookup is \<^verbatim>\<open>String(req.query.sessionId)\<close>.
  A value found on the prototype chain is not a transport: calling its
  \<^verbatim>\<open>handlePostMessage\<close> is the \<^verbatim>\<open>TypeError\<close> the inner catch block reports.
\<close>

datatype post_outcome = PostAnswered | PostThrew string bool

definition session_key :: "request \<Rightarrow> string" where
  "session_key req = (case query_sessionId req of Some s \<Rightarrow> s | None \<Rightarrow> ''undefined'')"

definition app_messages :: "post_outcome \<Rightarrow> request \<Rightarrow> transports \<Rightarrow> response \<times> transports" where
  "app_messages outcome req ts =
     (case js_lookup (sse ts) (session_key req) of
        Own t \<Rightarrow>
          (case outcome of
             PostAnswered \<Rightarrow> (FromTransport, ts)
           | PostThrew text headersSent \<Rightarrow>
               (if headersSent then FromTransport
                else JsonRpcError 500 (- 32603) ''Error processing message'' (Some text)
                       (body_id req), ts))
      | Inherited \<Rightarrow>
          (JsonRpcError 500 (- 32603) ''Error processing message''
             (Some ''transport.handlePostMessage is not a function'') (body_id req), ts)
      | Absent \<Rightarrow>
          (JsonRpcError 400 (- 32000) (''No transport found for sessionId '' @ session_key req)
             None (body_id req), ts))"

subsection \<open>Shutdown\<close>

text \<open>
  \<^verbatim>\<open>
  for (const sessionId in transports.sse) {
    try { await transports.sse[sessionId].close(); delete transports.sse[sessionId]; }
    catch (error) { logger.error(...); }
  }
  \<close>
  and the same loop over \<^verbatim>\<open>transports.streamable\<close>, then
  \<^verbatim>\<open>await midnightServer.close(); process.exit(0);\<close>. Whether a transport's
  \<^verbatim>\<open>close()\<close> resolves is the SDK's business: the parameter \<open>closes\<close>. The wallet
  facade's \<^verbatim>\<open>close()\<close> catches its own errors. The model returns the trace of what
  was done, in order, and the registry as it is left.
\<close>

datatype transport_kind = SSE | Streamable

datatype event =
    CloseAttempted transport_kind string bool
  | WalletClosed
  | ProcessExit int

fun close_each ::
    "(transport \<Rightarrow> bool) \<Rightarrow> transport_kind \<Rightarrow> (string \<times> transport) list
       \<Rightarrow> (string \<times> transport) list \<Rightarrow> event list \<times> (string \<times> transport) list" where
  "close_each closes kind [] registry = ([], registry)"
| "close_each closes kind (entry # rest) registry =
     (if closes (snd entry) then
        (let (events, registry') =
               close_each closes kind rest (delete_property registry (fst entry))
         in (CloseAttempted kind (fst entry) True # events, registry'))
      else
        (let (events, registry') = close_each closes kind rest registry
         in (CloseAttempted kind (fst entry) False # events, registry')))"

definition shutdown :: "(transport_kind \<Rightarrow> transport \<Rightarrow> bool) \<Rightarrow> transports \<Rightarrow> event list \<times> transports" where
  "shutdown closes ts =
     (let (sse_events, sse') = close_each (closes SSE) SSE (sse ts) (sse ts);
          (stream_events, streamable') =
            close_each (closes Streamable) Streamable (streamable ts) (streamable ts)
      in (sse_events @ stream_events @ [WalletClosed, ProcessExit 0],
          \<lparr> streamable = streamable', sse = sse' \<rparr>))"

section \<open>Notions used to state the properties\<close>

text \<open>
  Two strings are equal ignoring case when lower-casing makes them equal. A \<^verbatim>\<open>token\<close>
  argument selects the native funds when it is falsy (not supplied, \<^verbatim>\<open>undefined\<close>,
  \<^verbatim>\<open>null\<close>, the empty string, zero, \<^verbatim>\<open>false\<close>) or is a string that names them:
  \<^verbatim>\<open>native\<close>, \<^verbatim>\<open>tdust\<close> or \<^verbatim>\<open>dust\<close> in any mix of cases.
\<close>

definition equal_ignoring_case :: "string \<Rightarrow> string \<Rightarrow> bool" where
  "equal_ignoring_case s t = (toLowerCase s = toLowerCase t)"

definition selects_native :: "jsval \<Rightarrow> bool" where
  "selects_native token =
     (if truthy token then
        (case token of
           JString s \<Rightarrow>
             equal_ignoring_case s ''native'' \<or> equal_ignoring_case s ''tdust'' \<or>
             equal_ignoring_case s ''dust''
         | _ \<Rightarrow> False)
      else True)"

text \<open>
  On the stream endpoint, a request asks for initialization when it carries no session id
  (no header, or an empty one) and the SDK recognises its body as an \<^verbatim>\<open>initialize\<close>
  message. A request carries a known session id when the id is a key of the registry of
  stream sessions. The session ids of a registry are its keys.
\<close>

definition initialization_request :: "mcp_env \<Rightarrow> request \<Rightarrow> bool" where
  "initialization_request env req =
     (\<not> present (headers req ''mcp-session-id'') \<and> isInitializeRequest env (body req))"

definition known_session :: "transports \<Rightarrow> request \<Rightarrow> bool" where
  "known_session ts req =
     (case headers req ''mcp-session-id'' of
        Some s \<Rightarrow> s \<noteq> [] \<and> map_of (streamable ts) s \<noteq> None
      | None \<Rightarrow> False)"

definition session_ids :: "(string \<times> transport) list \<Rightarrow> string set" where
  "session_ids registry = fst ` set registry"

section \<open>Properties of the serialiser\<close>















section \<open>Properties of receipt verification\<close>

text \<open>
  Claim C7. \<open>confirmTransactionHasBeenReceived\<close>: when the wallet is not ready it throws
  \<open>WALLET_NOT_READY\<close>; when the wallet is ready and the query returns, it returns the
  query's \<open>exists\<close> together with the sync status (\<open>syncedIndices\<close>, \<open>totalIndices\<close>,
  \<open>isFullySynced\<close>) the query reported; when the query throws, it throws
  \<open>IDENTIFIER_VERIFICATION_FAILED\<close>. Two answers whose \<open>isFullySynced\<close> differ are
  different answers, whatever \<open>exists\<close> says.
\<close>

theorem verifyByIdentifier_answers:
  "(\<not> isReady w \<longrightarrow>
      confirmTransactionHasBeenReceived w identifier =
        Inl (MCPError WALLET_NOT_READY ''Wallet is not ready'')) \<and>
   (isReady w \<longrightarrow>
      (\<forall>r. hasReceivedTransactionByIdentifier w identifier = Inr r \<longrightarrow>
         confirmTransactionHasBeenReceived w identifier =
           Inr \<lparr> exists = w_exists r,
                 syncStatus = \<lparr> syncedIndices = w_syncedIndices r,
                                totalIndices = w_totalIndices r,
                                isFullySynced = w_isFullySynced r \<rparr> \<rparr>) \<and>
      (\<forall>m. hasReceivedTransactionByIdentifier w identifier = Inl m \<longrightarrow>
         confirmTransactionHasBeenReceived w identifier =
           Inl (MCPError IDENTIFIER_VERIFICATION_FAILED
                 (''Failed to verify transaction with identifier: '' @ m)))) \<and>
   (\<forall>w' r r'. isReady w \<and> isReady w' \<and>
        hasReceivedTransactionByIdentifier w identifier = Inr r \<and>
        hasReceivedTransactionByIdentifier w' identifier = Inr r' \<and>
        w_isFullySynced r \<noteq> w_isFullySynced r' \<longrightarrow>
        confirmTransactionHasBeenReceived w identifier \<noteq>
        confirmTransactionHasBeenReceived w' identifier)"
  by (auto simp: confirmTransactionHasBeenReceived_def)

theorem verifyByIdentifier_answers_witness:
  "confirmTransactionHasBeenReceived
     \<lparr> isReady = True,
       hasReceivedTransactionByIdentifier =
         (\<lambda>i. Inr \<lparr> w_exists = False, w_syncedIndices = 40, w_totalIndices = 100,
                     w_isFullySynced = False \<rparr>) \<rparr> ''unknown-id'' =
     Inr \<lparr> exists = False,
           syncStatus = \<lparr> syncedIndices = 40, totalIndices = 100, isFullySynced = False \<rparr> \<rparr> \<and>
   confirmTransactionHasBeenReceived
     \<lparr> isReady = False, hasReceivedTransactionByIdentifier = (\<lambda>i. Inl ''offline'') \<rparr>
     ''unknown-id'' = Inl (MCPError WALLET_NOT_READY ''Wallet is not ready'') \<and>
   confirmTransactionHasBeenReceived
     \<lparr> isReady = True, hasReceivedTransactionByIdentifier = (\<lambda>i. Inl ''offline'') \<rparr>
     ''unknown-id'' =
     Inl (MCPError IDENTIFIER_VERIFICATION_FAILED
           ''Failed to verify transaction with identifier: offline'') \<and>
   confirmTransactionHasBeenReceived
     \<lparr> isReady = True,
       hasReceivedTransactionByIdentifier =
         (\<lambda>i. Inr \<lparr> w_exists = False, w_syncedIndices = 40, w_totalIndices = 100,
                     w_isFullySynced = False \<rparr>) \<rparr> ''unknown-id'' \<noteq>
   confirmTransactionHasBeenReceived
     \<lparr> isReady = True,
       hasReceivedTransactionByIdentifier =
         (\<lambda>i. Inr \<lparr> w_exists = False, w_syncedIndices = 100, w_totalIndices = 100,
                     w_isFullySynced = True \<rparr>) \<rparr> ''unknown-id''"
  using
    verifyByIdentifier_answers
      [of "\<lparr> isReady = True,
             hasReceivedTransactionByIdentifier =
               (\<lambda>i. Inr \<lparr> w_exists = False, w_syncedIndices = 40, w_totalIndices = 100,
                           w_isFullySynced = False \<rparr>) \<rparr>" "''unknown-id''"]
    verifyByIdentifier_answers
      [of "\<lparr> isReady = True,
             hasReceivedTransactionByIdentifier =
               (\<lambda>i. Inr \<lparr> w_exists = False, w_syncedIndices = 100, w_totalIndices = 100,
                           w_isFullySynced = True \<rparr>) \<rparr>" "''unknown-id''"]
    verifyByIdentifier_answers
      [of "\<lparr> isReady = False, hasReceivedTransactionByIdentifier = (\<lambda>i. Inl ''offline'') \<rparr>"
          "''unknown-id''"]
    verifyByIdentifier_answers
      [of "\<lparr> isReady = True, hasReceivedTransactionByIdentifier = (\<lambda>i. Inl ''offline'') \<rparr>"
          "''unknown-id''"]
  by simp

section \<open>Properties of tool dispatch\<close>

lemma handleToolCall_cases:
  "handleToolCall http ''send'' toolArgs w = tool_send http toolArgs w"
  "handleToolCall http ''verifyTransaction'' toolArgs w = tool_verifyTransaction http toolArgs w"
  "handleToolCall http ''getTransactionStatus'' toolArgs w =
     tool_getTransactionStatus http toolArgs w"
  "handleToolCall http ''getTokenBalance'' toolArgs w = tool_getTokenBalance http toolArgs w"
  "handleToolCall http ''registerInMarketplace'' toolArgs w =
     tool_registerInMarketplace http toolArgs w"
  "handleToolCall http ''verifyUserInMarketplace'' toolArgs w =
     tool_verifyUserInMarketplace http toolArgs w"
  "handleToolCall http ''openDaoElection'' toolArgs w = tool_openDaoElection http toolArgs w"
  "handleToolCall http ''closeDaoElection'' toolArgs w =
     tool_contractAddress
       (\<lambda>a. HttpPost [Lit ''/dao/close-election''] (JObject [(''contractAddress'', a)]))
       http toolArgs w"
  "handleToolCall http ''castDaoVote'' toolArgs w = tool_castDaoVote http toolArgs w"
  "handleToolCall http ''fundDaoTreasury'' toolArgs w = tool_fundDaoTreasury http toolArgs w"
  "handleToolCall http ''payoutDaoProposal'' toolArgs w =
     tool_contractAddress
       (\<lambda>a. HttpPost [Lit ''/dao/payout-proposal''] (JObject [(''contractAddress'', a)]))
       http toolArgs w"
  "handleToolCall http ''getDaoElectionStatus'' toolArgs w =
     tool_contractAddress (\<lambda>a. HttpGet [Lit ''/dao/election-status/'', Arg a]) http toolArgs w"
  "handleToolCall http ''getDaoState'' toolArgs w =
     tool_contractAddress (\<lambda>a. HttpGet [Lit ''/dao/state/'', Arg a]) http toolArgs w"
  by (simp_all add: handleToolCall_def)


lemma field_undefined: "field toolArgs f = JUndefined \<Longrightarrow> \<not> truthy (field toolArgs f)"
  by simp

lemma field_nullish: "nullish toolArgs \<Longrightarrow> field toolArgs f = JUndefined"
  by (auto simp: nullish_def field_def)

lemma truthy_field_not_nullish: "truthy (field toolArgs f) \<Longrightarrow> \<not> nullish toolArgs"
  using field_nullish [of toolArgs f] by auto

lemma rejects_send:
  "\<not> nullish toolArgs \<Longrightarrow>
   \<not> truthy (field toolArgs ''destinationAddress'') \<or>
   \<not> truthy (field toolArgs ''amount'') \<Longrightarrow>
     \<exists>m. handleToolCall http ''send'' toolArgs w = (Inl (McpError InvalidParams m), w)"
  by (auto simp: handleToolCall_cases tool_send_def)

lemma rejects_verifyTransaction:
  "\<not> nullish toolArgs \<Longrightarrow>
   \<not> truthy (field toolArgs ''identifier'') \<Longrightarrow>
     \<exists>m. handleToolCall http ''verifyTransaction'' toolArgs w = (Inl (McpError InvalidParams m), w)"
  by (auto simp: handleToolCall_cases tool_verifyTransaction_def)

lemma rejects_getTransactionStatus:
  "\<not> nullish toolArgs \<Longrightarrow>
   \<not> truthy (field toolArgs ''transactionId'') \<Longrightarrow>
     \<exists>m. handleToolCall http ''getTransactionStatus'' toolArgs w = (Inl (McpError InvalidParams m), w)"
  by (auto simp: handleToolCall_cases tool_getTransactionStatus_def)

lemma rejects_getTokenBalance:
  "\<not> nullish toolArgs \<Longrightarrow>
   \<not> truthy (field toolArgs ''tokenName'') \<Longrightarrow>
     \<exists>m. handleToolCall http ''getTokenBalance'' toolArgs w = (Inl (McpError InvalidParams m), w)"
  by (auto simp: handleToolCall_cases tool_getTokenBalance_def)

lemma rejects_registerInMarketplace:
  "\<not> nullish toolArgs \<Longrightarrow>
   \<not> truthy (field toolArgs ''userId'') \<or>
   \<not> truthy (field toolArgs ''userData'') \<Longrightarrow>
     \<exists>m. handleToolCall http ''registerInMarketplace'' toolArgs w = (Inl (McpError InvalidParams m), w)"
  by (auto simp: handleToolCall_cases tool_registerInMarketplace_def)

lemma rejects_verifyUserInMarketplace:
  "\<not> nullish toolArgs \<Longrightarrow>
   \<not> truthy (field toolArgs ''userId'') \<or>
   \<not> truthy (field toolArgs ''verificationData'') \<Longrightarrow>
     \<exists>m. handleToolCall http ''verifyUserInMarketplace'' toolArgs w = (Inl (McpError InvalidParams m), w)"
  by (auto simp: handleToolCall_cases tool_verifyUserInMarketplace_def)

lemma rejects_openDaoElection:
  "\<not> nullish toolArgs \<Longrightarrow>
   \<not> truthy (field toolArgs ''contractAddress'') \<or>
   \<not> truthy (field toolArgs ''electionId'') \<Longrightarrow>
     \<exists>m. handleToolCall http ''openDaoElection'' toolArgs w = (Inl (McpError InvalidParams m), w)"
  by (auto simp: handleToolCall_cases tool_openDaoElection_def)

lemma rejects_castDaoVote:
  "\<not> nullish toolArgs \<Longrightarrow>
   \<not> truthy (field toolArgs ''contractAddress'') \<or>
   \<not> truthy (field toolArgs ''voteType'') \<or>
   \<not> truthy (field toolArgs ''voteCoinNonce'') \<or>
   \<not> truthy (field toolArgs ''voteCoinColor'') \<or>
   \<not> truthy (field toolArgs ''voteCoinValue'') \<Longrightarrow>
     \<exists>m. handleToolCall http ''castDaoVote'' toolArgs w = (Inl (McpError InvalidParams m), w)"
  by (auto simp: handleToolCall_cases tool_castDaoVote_def)

lemma rejects_fundDaoTreasury:
  "\<not> nullish toolArgs \<Longrightarrow>
   \<not> truthy (field toolArgs ''contractAddress'') \<or>
   \<not> truthy (field toolArgs ''fundCoinNonce'') \<or>
   \<not> truthy (field toolArgs ''fundCoinColor'') \<or>
   \<not> truthy (field toolArgs ''fundCoinValue'') \<Longrightarrow>
     \<exists>m. handleToolCall http ''fundDaoTreasury'' toolArgs w = (Inl (McpError InvalidParams m), w)"
  by (auto simp: handleToolCall_cases tool_fundDaoTreasury_def)

lemma rejects_contractAddress:
  "\<not> nullish toolArgs \<Longrightarrow> \<not> truthy (field toolArgs ''contractAddress'') \<Longrightarrow>
     \<exists>m. tool_contractAddress request_of http toolArgs w = (Inl (McpError InvalidParams m), w)"
  by (auto simp: tool_contractAddress_def)

lemma rejects_all_tools:
  "\<not> nullish toolArgs \<Longrightarrow>
   list_all
     (\<lambda>t. list_all
        (\<lambda>f. field toolArgs f = JUndefined \<longrightarrow>
           (\<exists>m. handleToolCall http (tool_name t) toolArgs w =
              (Inl (McpError InvalidParams m), w)))
        (required t))
     ALL_TOOLS"
  unfolding ALL_TOOLS_def
  apply (simp only: list.pred_inject tool_descriptor.simps simp_thms)
  apply (intro conjI impI)
  subgoal by (rule rejects_send, assumption, simp)
  subgoal by (rule rejects_send, assumption, simp)
  subgoal by (rule rejects_verifyTransaction, assumption, simp)
  subgoal by (rule rejects_getTransactionStatus, assumption, simp)
  subgoal by (rule rejects_getTokenBalance, assumption, simp)
  subgoal by (rule rejects_registerInMarketplace, assumption, simp)
  subgoal by (rule rejects_registerInMarketplace, assumption, simp)
  subgoal by (rule rejects_verifyUserInMarketplace, assumption, simp)
  subgoal by (rule rejects_verifyUserInMarketplace, assumption, simp)
  subgoal by (rule rejects_openDaoElection, assumption, simp)
  subgoal by (rule rejects_openDaoElection, assumption, simp)
  subgoal by (simp only: handleToolCall_cases, rule rejects_contractAddress, assumption, simp)
  subgoal by (rule rejects_castDaoVote, assumption, simp)
  subgoal by (rule rejects_castDaoVote, assumption, simp)
  subgoal by (rule rejects_castDaoVote, assumption, simp)
  subgoal by (rule rejects_castDaoVote, assumption, simp)
  subgoal by (rule rejects_castDaoVote, assumption, simp)
  subgoal by (rule rejects_fundDaoTreasury, assumption, simp)
  subgoal by (rule rejects_fundDaoTreasury, assumption, simp)
  subgoal by (rule rejects_fundDaoTreasury, assumption, simp)
  subgoal by (rule rejects_fundDaoTreasury, assumption, simp)
  subgoal by (simp only: handleToolCall_cases, rule rejects_contractAddress, assumption, simp)
  subgoal by (simp only: handleToolCall_cases, rule rejects_contractAddress, assumption, simp)
  subgoal by (simp only: handleToolCall_cases, rule rejects_contractAddress, assumption, simp)
  done

lemma type_error_all_tools:
  "nullish toolArgs \<Longrightarrow>
   list_all
     (\<lambda>t. required t = [] \<or>
        handleToolCall http (tool_name t) toolArgs w =
          (Inl (cannot_destructure (hd (required t)) toolArgs), w))
     ALL_TOOLS"
  by (simp add: ALL_TOOLS_def handleToolCall_cases tool_send_def tool_verifyTransaction_def
      tool_getTransactionStatus_def tool_getTokenBalance_def tool_registerInMarketplace_def
      tool_verifyUserInMarketplace_def tool_openDaoElection_def tool_castDaoVote_def
      tool_fundDaoTreasury_def tool_contractAddress_def)

lemma object_arguments_missing_field_rejected:
  assumes "t \<in> set ALL_TOOLS" and "f \<in> set (required t)" and "\<not> nullish toolArgs"
    and "field toolArgs f = JUndefined"
  shows "\<exists>m. handleToolCall http (tool_name t) toolArgs w = (Inl (McpError InvalidParams m), w)"
  using rejects_all_tools [OF assms(3), of http w] assms(1,2,4)
  unfolding list_all_iff by blast

lemma nullish_arguments_type_error:
  assumes "t \<in> set ALL_TOOLS" and "required t \<noteq> []" and "nullish toolArgs"
  shows "handleToolCall http (tool_name t) toolArgs w =
           (Inl (cannot_destructure (hd (required t)) toolArgs), w)"
  using type_error_all_tools [OF assms(3), of http w] assms(1,2)
  unfolding list_all_iff by blast

text \<open>
  Claim C6 at a failing input. A call of \<^verbatim>\<open>send\<close> whose arguments are \<^verbatim>\<open>undefined\<close>
  omits every required field. The destructuring at the head of the case throws a
  \<^verbatim>\<open>TypeError\<close> before the check of the required values is reached, so the caller gets
  that error and not \<open>InvalidParams\<close>; no request is made. (When the arguments are
  an object, a missing required field does give \<open>InvalidParams\<close> for every tool:
  \<open>object_arguments_missing_field_rejected\<close>; when they are \<^verbatim>\<open>undefined\<close> or
  \<^verbatim>\<open>null\<close>, every tool with a required field throws the \<^verbatim>\<open>TypeError\<close>:
  \<open>nullish_arguments_type_error\<close>.)
\<close>

theorem send_without_arguments_type_error:
  "handleToolCall recording_client ''send'' JUndefined [] =
     (Inl (TypeError
            ''Cannot destructure property 'destinationAddress' of 'toolArgs' as it is undefined.''),
      [])"
  by (simp add: handleToolCall_cases tool_send_def nullish_def cannot_destructure_def quoted_def)

text \<open>
  Claim C3, as the code has it. A tool name that the switch has no case for makes
  \<open>handleToolCall\<close> throw an \<open>McpError\<close> whose message is \<^verbatim>\<open>Unknown tool: \<close> followed by
  the name, without a request to the wallet server: the call never returns a result. The
  code of that error is \<open>InvalidParams\<close>, the code of a missing parameter; only the
  message tells the two apart.
\<close>

theorem unknown_tool_rejected:
  "toolName \<notin> set handled_tools \<Longrightarrow>
     handleToolCall http toolName toolArgs w =
       (Inl (McpError InvalidParams (''Unknown tool: '' @ toolName)), w)"
  by (simp add: handled_tools_def handleToolCall_def)

theorem unknown_tool_rejected_witness:
  "''launchRocket'' \<notin> set handled_tools \<and>
   handleToolCall recording_client ''launchRocket'' (JObject []) [] =
     (Inl (McpError InvalidParams ''Unknown tool: launchRocket''), [])"
  using unknown_tool_rejected [of "''launchRocket''" recording_client "JObject []" "[]"]
  by (simp add: handled_tools_def)

text \<open>
  The error for an unknown tool and the error for \<^verbatim>\<open>send\<close> without an amount carry the
  same code: there is no error kind of its own for an unknown tool.
\<close>

theorem unknown_tool_same_code_counterexample:
  "fst (handleToolCall recording_client ''launchRocket'' (JObject []) []) =
     Inl (McpError InvalidParams ''Unknown tool: launchRocket'') \<and>
   fst (handleToolCall recording_client ''send''
          (JObject [(''destinationAddress'', JString ''addr-X'')]) []) =
     Inl (McpError InvalidParams ''Missing required parameters: destinationAddress and amount'') \<and>
   thrown_code (McpError InvalidParams ''Unknown tool: launchRocket'') =
     thrown_code (McpError InvalidParams
                   ''Missing required parameters: destinationAddress and amount'')"
  by (simp add: handleToolCall_def tool_send_def field_def nullish_def)

lemma toLowerCase_literals:
  "toLowerCase ''native'' = ''native''" "toLowerCase ''tdust'' = ''tdust''"
  "toLowerCase ''dust'' = ''dust''"
  by (simp_all add: toLowerCase_def char_toLowerCase_def)

text \<open>
  Claim C10, as the code has it. For a \<^verbatim>\<open>send\<close> whose \<^verbatim>\<open>destinationAddress\<close> and
  \<^verbatim>\<open>amount\<close> are both truthy: the request is \<^verbatim>\<open>POST /wallet/send\<close> with
  \<^verbatim>\<open>{destinationAddress, amount}\<close> if and only if the token is falsy (not supplied,
  \<^verbatim>\<open>null\<close>, the empty string, ...) or is a string equal to \<^verbatim>\<open>native\<close>, \<^verbatim>\<open>tdust\<close> or
  \<^verbatim>\<open>dust\<close> ignoring case; for every other string token it is
  \<^verbatim>\<open>POST /wallet/tokens/send\<close> with
  \<^verbatim>\<open>{tokenName: token, toAddress: destinationAddress, amount}\<close>; and a truthy token that
  is not a string makes the call throw a \<^verbatim>\<open>TypeError\<close> without any request.
\<close>

theorem send_routing:
  assumes "truthy (field toolArgs ''destinationAddress'')"
      and "truthy (field toolArgs ''amount'')"
  shows "handleToolCall http ''send'' toolArgs w =
           (if selects_native (field toolArgs ''token'') then
              call_backend http
                (HttpPost [Lit ''/wallet/send'']
                   (JObject [(''destinationAddress'', field toolArgs ''destinationAddress''),
                             (''amount'', field toolArgs ''amount'')])) w
            else
              (case field toolArgs ''token'' of
                 JString s \<Rightarrow>
                   call_backend http
                     (HttpPost [Lit ''/wallet/tokens/send'']
                        (JObject [(''tokenName'', JString s),
                                  (''toAddress'', field toolArgs ''destinationAddress''),
                                  (''amount'', field toolArgs ''amount'')])) w
               | _ \<Rightarrow> (Inl (TypeError ''token.toLowerCase is not a function''), w)))"
proof -
  have nn: "\<not> nullish toolArgs"
    using assms(1) by (rule truthy_field_not_nullish)
  show ?thesis
    using assms nn
    by (cases "field toolArgs ''token''")
      (simp_all add: handleToolCall_cases tool_send_def Let_def names_native_def
        selects_native_def equal_ignoring_case_def toLowerCase_literals)
qed

theorem send_routing_witness:
  "handleToolCall recording_client ''send''
     (JObject [(''destinationAddress'', JString ''addr-X''), (''amount'', JString ''5'')]) [] =
     (Inr (json_content JNull),
      [HttpPost [Lit ''/wallet/send'']
         (JObject [(''destinationAddress'', JString ''addr-X''), (''amount'', JString ''5'')])]) \<and>
   handleToolCall recording_client ''send''
     (JObject [(''destinationAddress'', JString ''addr-X''), (''amount'', JString ''5''),
               (''token'', JString ''tDUST'')]) [] =
     (Inr (json_content JNull),
      [HttpPost [Lit ''/wallet/send'']
         (JObject [(''destinationAddress'', JString ''addr-X''), (''amount'', JString ''5'')])]) \<and>
   handleToolCall recording_client ''send''
     (JObject [(''destinationAddress'', JString ''addr-X''), (''amount'', JString ''5''),
               (''token'', JString ''GOLD'')]) [] =
     (Inr (json_content JNull),
      [HttpPost [Lit ''/wallet/tokens/send'']
         (JObject [(''tokenName'', JString ''GOLD''), (''toAddress'', JString ''addr-X''),
                   (''amount'', JString ''5'')])]) \<and>
   handleToolCall recording_client ''send''
     (JObject [(''destinationAddress'', JString ''addr-X''), (''amount'', JString ''5''),
               (''token'', JBoolean True)]) [] =
     (Inl (TypeError ''token.toLowerCase is not a function''), [])"
  using
    send_routing [of "JObject [(''destinationAddress'', JString ''addr-X''), (''amount'', JString ''5'')]" recording_client "[]"]
    send_routing [of "JObject [(''destinationAddress'', JString ''addr-X''), (''amount'', JString ''5''),
               (''token'', JString ''tDUST'')]" recording_client "[]"]
    send_routing [of "JObject [(''destinationAddress'', JString ''addr-X''), (''amount'', JString ''5''),
               (''token'', JString ''GOLD'')]" recording_client "[]"]
    send_routing [of "JObject [(''destinationAddress'', JString ''addr-X''), (''amount'', JString ''5''),
               (''token'', JBoolean True)]" recording_client "[]"]
  by (simp add: field_def selects_native_def equal_ignoring_case_def toLowerCase_def
      char_toLowerCase_def call_backend_def recording_client_def)

text \<open>
  Three inputs the claim as first stated gets wrong. A token that is supplied and empty
  equals none of the three names, and the request still goes to \<^verbatim>\<open>/wallet/send\<close>. A
  truthy token that is not a string is routed to neither endpoint: the call throws a
  \<^verbatim>\<open>TypeError\<close>. A call with no token and an empty amount is routed to neither
  endpoint: it is rejected with \<open>InvalidParams\<close>.
\<close>

theorem send_routing_counterexample:
  "field (JObject [(''destinationAddress'', JString ''addr-X''), (''amount'', JString ''5''),
                   (''token'', JString [])]) ''token'' = JString [] \<and>
   \<not> equal_ignoring_case [] ''native'' \<and> \<not> equal_ignoring_case [] ''tdust'' \<and>
   \<not> equal_ignoring_case [] ''dust'' \<and>
   handleToolCall recording_client ''send''
     (JObject [(''destinationAddress'', JString ''addr-X''), (''amount'', JString ''5''),
               (''token'', JString [])]) [] =
     (Inr (json_content JNull),
      [HttpPost [Lit ''/wallet/send'']
         (JObject [(''destinationAddress'', JString ''addr-X''), (''amount'', JString ''5'')])]) \<and>
   handleToolCall recording_client ''send''
     (JObject [(''destinationAddress'', JString ''addr-X''), (''amount'', JString ''5''),
               (''token'', JNumber (Finite 7))]) [] =
     (Inl (TypeError ''token.toLowerCase is not a function''), []) \<and>
   handleToolCall recording_client ''send''
     (JObject [(''destinationAddress'', JString ''addr-X''), (''amount'', JString [])]) [] =
     (Inl (McpError InvalidParams
            ''Missing required parameters: destinationAddress and amount''), [])"
  by (simp add: handleToolCall_cases tool_send_def field_def nullish_def Let_def
      names_native_def equal_ignoring_case_def toLowerCase_def char_toLowerCase_def
      call_backend_def recording_client_def)

section \<open>Properties of the gateway\<close>

lemma lookup_session_unknown:
  "\<not> known_session ts req \<Longrightarrow>
     lookup_session (streamable ts) (headers req ''mcp-session-id'') = Absent \<or>
     lookup_session (streamable ts) (headers req ''mcp-session-id'') = Inherited"
  by (auto simp: known_session_def lookup_session_def js_lookup_def split: option.splits)

lemma lookup_session_missing:
  "\<not> present sid \<Longrightarrow> lookup_session registry sid = Absent"
  by (auto simp: present_def lookup_session_def split: option.splits)

lemma session_ids_set_property:
  "session_ids (set_property registry k v) = insert k (session_ids registry)"
  by (induction registry) (auto simp: session_ids_def)

lemma session_ids_delete_property:
  "session_ids (delete_property registry k) \<subseteq> session_ids registry"
  by (auto simp: session_ids_def delete_property_def)

lemma session_ids_onclose: "session_ids (streamable (onclose t ts)) \<subseteq> session_ids (streamable ts)"
  using session_ids_delete_property by (auto simp: onclose_def)

lemma app_mcp_unauthorized:
  "unauthorized cfg req \<Longrightarrow>
     app_mcp cfg env req ts = (JsonRpcError 401 (- 32000) ''Unauthorized'' None JNull, ts)"
  by (simp add: app_mcp_def)

lemma app_mcp_creates:
  assumes "\<not> unauthorized cfg req" "verb req \<noteq> ''GET''" "verb req \<noteq> ''DELETE''"
    "initialization_request env req" "connect_error env = None"
    "\<not> nullish (body req)" "fresh env = Initialized sid"
  shows "app_mcp cfg env req ts =
           (FromTransport,
            ts\<lparr>streamable := set_property (streamable ts) sid \<lparr>sessionId = Some sid\<rparr>\<rparr>)"
  using assms
  by (simp add: app_mcp_def Let_def initialization_request_def lookup_session_missing)

lemma app_mcp_rejects:
  assumes "\<not> known_session ts req"
    and "unauthorized cfg req \<or> verb req = ''GET'' \<or> verb req = ''DELETE'' \<or>
         \<not> initialization_request env req"
  shows "is_error (fst (app_mcp cfg env req ts)) \<and> snd (app_mcp cfg env req ts) = ts"
proof (cases "unauthorized cfg req")
  case True
  then show ?thesis by (simp add: app_mcp_unauthorized)
next
  case False
  from assms(1) consider
      (absent) "lookup_session (streamable ts) (headers req ''mcp-session-id'') = Absent"
    | (inherited) "lookup_session (streamable ts) (headers req ''mcp-session-id'') = Inherited"
    using lookup_session_unknown by blast
  then show ?thesis
  proof cases
    case absent
    with False assms(2) show ?thesis
      by (auto simp: app_mcp_def Let_def initialization_request_def)
  next
    case inherited
    with False show ?thesis
      by (auto simp: app_mcp_def Let_def internal_server_error_def)
  qed
qed

lemma app_mcp_new_id_only_by_initialization:
  assumes "k \<in> session_ids (streamable (snd (app_mcp cfg env req ts)))"
      and "k \<notin> session_ids (streamable ts)"
  shows "\<not> unauthorized cfg req \<and> verb req \<noteq> ''GET'' \<and> verb req \<noteq> ''DELETE'' \<and>
         initialization_request env req \<and> connect_error env = None \<and>
         \<not> nullish (body req) \<and> fresh env = Initialized k"
proof -
  have sub: "\<And>t. k \<in> session_ids (streamable (onclose t ts)) \<Longrightarrow> False"
    using assms(2) session_ids_onclose by blast
  show ?thesis
    using assms sub
    by (auto simp: app_mcp_def initialization_request_def session_ids_set_property Let_def
        split: if_splits lookup.splits bound_outcome.splits fresh_outcome.splits option.splits)
qed

lemma app_mcp_unknown_session_keeps_registry:
  assumes "\<not> known_session ts req"
    and "connect_error env \<noteq> None \<or> nullish (body req) \<or> (\<forall>sid. fresh env \<noteq> Initialized sid)"
  shows "snd (app_mcp cfg env req ts) = ts"
proof -
  from assms(1) consider
      (absent) "lookup_session (streamable ts) (headers req ''mcp-session-id'') = Absent"
    | (inherited) "lookup_session (streamable ts) (headers req ''mcp-session-id'') = Inherited"
    using lookup_session_unknown by blast
  then show ?thesis
  proof cases
    case absent
    with assms(2) show ?thesis
      by (auto simp: app_mcp_def Let_def split: option.splits fresh_outcome.splits)
  next
    case inherited
    then show ?thesis by (auto simp: app_mcp_def Let_def)
  qed
qed

text \<open>
  Claim C4, as the code has it. On the stream endpoint:
  \<^item> a request that passes the credential check, is not a \<^verbatim>\<open>GET\<close> or \<^verbatim>\<open>DELETE\<close>,
    carries no session id and has an initialization request (not \<^verbatim>\<open>null\<close>) as its body
    is given a new transport, and when the SDK connects that transport and reports it
    initialised under the id \<open>sid\<close>, the transport is registered under \<open>sid\<close>;
  \<^item> a session id that was not registered before a request is registered after it only
    if the request was of that kind and the SDK did so;
  \<^item> every request that carries an unknown or missing session id and is not of that
    kind (it fails the credential check, or is a \<^verbatim>\<open>GET\<close> or \<^verbatim>\<open>DELETE\<close>, or carries an
    unknown id, or its body is not an initialization request) gets an error response and
    leaves the registry as it was;
  \<^item> a request with an unknown or missing session id for which the SDK does not connect
    or does not initialise a session (or whose body is \<^verbatim>\<open>null\<close>) leaves the registry as
    it was.
\<close>

theorem stream_session_creation:
  "(\<not> unauthorized cfg req \<and> verb req \<noteq> ''GET'' \<and> verb req \<noteq> ''DELETE'' \<and>
    initialization_request env req \<and> connect_error env = None \<and> \<not> nullish (body req) \<and>
    fresh env = Initialized sid \<longrightarrow>
      app_mcp cfg env req ts =
        (FromTransport,
         ts\<lparr>streamable := set_property (streamable ts) sid \<lparr>sessionId = Some sid\<rparr>\<rparr>)) \<and>
   (\<forall>k. k \<in> session_ids (streamable (snd (app_mcp cfg env req ts))) \<and>
        k \<notin> session_ids (streamable ts) \<longrightarrow>
        \<not> unauthorized cfg req \<and> verb req \<noteq> ''GET'' \<and> verb req \<noteq> ''DELETE'' \<and>
        initialization_request env req \<and> connect_error env = None \<and>
        \<not> nullish (body req) \<and> fresh env = Initialized k) \<and>
   (\<not> known_session ts req \<and>
    (unauthorized cfg req \<or> verb req = ''GET'' \<or> verb req = ''DELETE'' \<or>
     \<not> initialization_request env req) \<longrightarrow>
      is_error (fst (app_mcp cfg env req ts)) \<and> snd (app_mcp cfg env req ts) = ts) \<and>
   (\<not> known_session ts req \<and>
    (connect_error env \<noteq> None \<or> nullish (body req) \<or> (\<forall>sid. fresh env \<noteq> Initialized sid)) \<longrightarrow>
      snd (app_mcp cfg env req ts) = ts)"
proof -
  have c1: "\<not> unauthorized cfg req \<and> verb req \<noteq> ''GET'' \<and> verb req \<noteq> ''DELETE'' \<and>
    initialization_request env req \<and> connect_error env = None \<and> \<not> nullish (body req) \<and>
    fresh env = Initialized sid \<longrightarrow>
      app_mcp cfg env req ts =
        (FromTransport,
         ts\<lparr>streamable := set_property (streamable ts) sid \<lparr>sessionId = Some sid\<rparr>\<rparr>)"
    using app_mcp_creates [of cfg req env sid ts] by simp
  have c2: "\<forall>k. k \<in> session_ids (streamable (snd (app_mcp cfg env req ts))) \<and>
        k \<notin> session_ids (streamable ts) \<longrightarrow>
        \<not> unauthorized cfg req \<and> verb req \<noteq> ''GET'' \<and> verb req \<noteq> ''DELETE'' \<and>
        initialization_request env req \<and> connect_error env = None \<and>
        \<not> nullish (body req) \<and> fresh env = Initialized k"
    using app_mcp_new_id_only_by_initialization [of _ cfg env req ts] by blast
  have c3: "\<not> known_session ts req \<and>
    (unauthorized cfg req \<or> verb req = ''GET'' \<or> verb req = ''DELETE'' \<or>
     \<not> initialization_request env req) \<longrightarrow>
      is_error (fst (app_mcp cfg env req ts)) \<and> snd (app_mcp cfg env req ts) = ts"
    using app_mcp_rejects [of ts req cfg env] by simp
  have c4: "\<not> known_session ts req \<and>
    (connect_error env \<noteq> None \<or> nullish (body req) \<or> (\<forall>sid. fresh env \<noteq> Initialized sid)) \<longrightarrow>
      snd (app_mcp cfg env req ts) = ts"
    using app_mcp_unknown_session_keeps_registry [of ts req env cfg] by simp
  show ?thesis
    by (intro conjI) (rule c1, rule c2, rule c3, rule c4)
qed

theorem stream_session_creation_witness:
  "app_mcp \<lparr> shouldCheckAuth = False, API_KEY = None \<rparr>
     \<lparr> isInitializeRequest = (\<lambda>b. b = JObject [(''method'', JString ''initialize'')]),
       connect_error = None, fresh = Initialized ''s-1'', bound = Answered \<rparr>
     \<lparr> verb = ''POST'', headers = Map.empty, query_sessionId = None,
       body = JObject [(''method'', JString ''initialize'')] \<rparr>
     \<lparr> streamable = [], sse = [] \<rparr> =
     (FromTransport, \<lparr> streamable = [(''s-1'', \<lparr>sessionId = Some ''s-1''\<rparr>)], sse = [] \<rparr>) \<and>
   app_mcp \<lparr> shouldCheckAuth = False, API_KEY = None \<rparr>
     \<lparr> isInitializeRequest = (\<lambda>b. b = JObject [(''method'', JString ''initialize'')]),
       connect_error = None, fresh = Initialized ''s-2'', bound = Answered \<rparr>
     \<lparr> verb = ''POST'', headers = [''mcp-session-id'' \<mapsto> ''gone''], query_sessionId = None,
       body = JObject [(''method'', JString ''tools/call'')] \<rparr>
     \<lparr> streamable = [(''s-1'', \<lparr>sessionId = Some ''s-1''\<rparr>)], sse = [] \<rparr> =
     (JsonRpcError 400 (- 32000) ''Bad Request: No valid session ID provided'' None JNull,
      \<lparr> streamable = [(''s-1'', \<lparr>sessionId = Some ''s-1''\<rparr>)], sse = [] \<rparr>)"
  using
    stream_session_creation
      [of "\<lparr> shouldCheckAuth = False, API_KEY = None \<rparr>"
          "\<lparr> verb = ''POST'', headers = Map.empty, query_sessionId = None,
             body = JObject [(''method'', JString ''initialize'')] \<rparr>"
          "\<lparr> isInitializeRequest = (\<lambda>b. b = JObject [(''method'', JString ''initialize'')]),
             connect_error = None, fresh = Initialized ''s-1'', bound = Answered \<rparr>"
          "''s-1''" "\<lparr> streamable = [], sse = [] \<rparr>"]
    stream_session_creation
      [of "\<lparr> shouldCheckAuth = False, API_KEY = None \<rparr>"
          "\<lparr> verb = ''POST'', headers = [''mcp-session-id'' \<mapsto> ''gone''],
             query_sessionId = None, body = JObject [(''method'', JString ''tools/call'')] \<rparr>"
          "\<lparr> isInitializeRequest = (\<lambda>b. b = JObject [(''method'', JString ''initialize'')]),
             connect_error = None, fresh = Initialized ''s-2'', bound = Answered \<rparr>"
          "''s-2''" "\<lparr> streamable = [(''s-1'', \<lparr>sessionId = Some ''s-1''\<rparr>)], sse = [] \<rparr>"]
  by (simp add: app_mcp_def Let_def unauthorized_def initialization_request_def known_session_def
      present_def nullish_def lookup_session_def js_lookup_def Object_prototype_names_def)

text \<open>
  Two requests that carry no session id and have an initialization request as their body,
  and create no session: a \<^verbatim>\<open>GET\<close>, which is answered 400 by the branch for
  \<^verbatim>\<open>GET\<close> and \<^verbatim>\<open>DELETE\<close>; and a \<^verbatim>\<open>POST\<close> without the credential while
  authentication is on, which is answered 401.
\<close>

theorem stream_session_not_created_counterexample:
  "initialization_request
     \<lparr> isInitializeRequest = (\<lambda>b. b = JObject [(''method'', JString ''initialize'')]),
       connect_error = None, fresh = Initialized ''s-1'', bound = Answered \<rparr>
     \<lparr> verb = ''GET'', headers = Map.empty, query_sessionId = None,
       body = JObject [(''method'', JString ''initialize'')] \<rparr> \<and>
   app_mcp \<lparr> shouldCheckAuth = False, API_KEY = None \<rparr>
     \<lparr> isInitializeRequest = (\<lambda>b. b = JObject [(''method'', JString ''initialize'')]),
       connect_error = None, fresh = Initialized ''s-1'', bound = Answered \<rparr>
     \<lparr> verb = ''GET'', headers = Map.empty, query_sessionId = None,
       body = JObject [(''method'', JString ''initialize'')] \<rparr>
     \<lparr> streamable = [], sse = [] \<rparr> =
     (PlainText 400 ''Invalid or missing session ID'', \<lparr> streamable = [], sse = [] \<rparr>) \<and>
   app_mcp \<lparr> shouldCheckAuth = True, API_KEY = Some ''s3cret'' \<rparr>
     \<lparr> isInitializeRequest = (\<lambda>b. b = JObject [(''method'', JString ''initialize'')]),
       connect_error = None, fresh = Initialized ''s-1'', bound = Answered \<rparr>
     \<lparr> verb = ''POST'', headers = Map.empty, query_sessionId = None,
       body = JObject [(''method'', JString ''initialize'')] \<rparr>
     \<lparr> streamable = [], sse = [] \<rparr> =
     (JsonRpcError 401 (- 32000) ''Unauthorized'' None JNull, \<lparr> streamable = [], sse = [] \<rparr>)"
  by (simp add: app_mcp_def Let_def unauthorized_def authHeader_def bearer_def
      initialization_request_def present_def lookup_session_def)

lemma close_each_events:
  "fst (close_each closes kind entries registry) =
     map (\<lambda>e. CloseAttempted kind (fst e) (closes (snd e))) entries"
  by (induction entries arbitrary: registry) (auto simp: split_def)

lemma close_each_registry:
  "snd (close_each closes kind entries registry) =
     filter (\<lambda>p. fst p \<notin> fst ` {e \<in> set entries. closes (snd e)}) registry"
proof (induction entries arbitrary: registry)
  case Nil
  then show ?case by simp
next
  case (Cons e entries)
  show ?case
  proof (cases "closes (snd e)")
    case True
    then show ?thesis
      using Cons.IH [of "delete_property registry (fst e)"]
      by (auto simp: split_def delete_property_def intro!: filter_cong)
  next
    case False
    then show ?thesis
      using Cons.IH [of registry] by (auto simp: split_def intro!: filter_cong)
  qed
qed

lemma closed_keys_distinct:
  assumes "distinct (map fst entries)"
  shows "filter (\<lambda>p. fst p \<notin> fst ` {e \<in> set entries. closes (snd e)}) entries =
         filter (\<lambda>p. \<not> closes (snd p)) entries"
proof (rule filter_cong [OF refl])
  fix p assume p: "p \<in> set entries"
  have "fst p \<in> fst ` {e \<in> set entries. closes (snd e)} \<longleftrightarrow> closes (snd p)"
  proof
    assume "fst p \<in> fst ` {e \<in> set entries. closes (snd e)}"
    then obtain e where e: "e \<in> set entries" "closes (snd e)" "fst e = fst p" by auto
    with p assms have "e = p" by (metis eq_key_imp_eq_value prod.collapse)
    with e show "closes (snd p)" by simp
  next
    assume "closes (snd p)"
    with p show "fst p \<in> fst ` {e \<in> set entries. closes (snd e)}" by auto
  qed
  then show "(fst p \<notin> fst ` {e \<in> set entries. closes (snd e)}) = (\<not> closes (snd p))" by simp
qed

text \<open>
  Claim C9. On a termination signal the gateway attempts to close every registered
  push-pair session and then every registered stream session, in registry order; an
  attempt that fails is recorded and the loop goes on; the wallet is closed after the last
  attempt and the process exits after that. A session whose transport closed is no longer
  registered; one whose transport failed to close still is.
\<close>

theorem shutdown_attempts_every_session:
  assumes "distinct (map fst (sse ts))" and "distinct (map fst (streamable ts))"
  shows "shutdown closes ts =
           (map (\<lambda>e. CloseAttempted SSE (fst e) (closes SSE (snd e))) (sse ts) @
            map (\<lambda>e. CloseAttempted Streamable (fst e) (closes Streamable (snd e))) (streamable ts) @
            [WalletClosed, ProcessExit 0],
            \<lparr> streamable = filter (\<lambda>e. \<not> closes Streamable (snd e)) (streamable ts),
              sse = filter (\<lambda>e. \<not> closes SSE (snd e)) (sse ts) \<rparr>)"
proof -
  have "close_each (closes SSE) SSE (sse ts) (sse ts) =
          (map (\<lambda>e. CloseAttempted SSE (fst e) (closes SSE (snd e))) (sse ts),
           filter (\<lambda>e. \<not> closes SSE (snd e)) (sse ts))"
    using close_each_events [of "closes SSE" SSE "sse ts" "sse ts"]
      close_each_registry [of "closes SSE" SSE "sse ts" "sse ts"]
      closed_keys_distinct [OF assms(1), of "closes SSE"]
    by (simp add: prod_eq_iff)
  moreover have "close_each (closes Streamable) Streamable (streamable ts) (streamable ts) =
          (map (\<lambda>e. CloseAttempted Streamable (fst e) (closes Streamable (snd e))) (streamable ts),
           filter (\<lambda>e. \<not> closes Streamable (snd e)) (streamable ts))"
    using close_each_events [of "closes Streamable" Streamable "streamable ts" "streamable ts"]
      close_each_registry [of "closes Streamable" Streamable "streamable ts" "streamable ts"]
      closed_keys_distinct [OF assms(2), of "closes Streamable"]
    by (simp add: prod_eq_iff)
  ultimately show ?thesis by (simp add: shutdown_def)
qed

theorem shutdown_attempts_every_session_witness:
  "shutdown (\<lambda>kind t. sessionId t \<noteq> Some ''b'')
     \<lparr> streamable = [(''c'', \<lparr>sessionId = Some ''c''\<rparr>)],
       sse = [(''a'', \<lparr>sessionId = Some ''a''\<rparr>), (''b'', \<lparr>sessionId = Some ''b''\<rparr>)] \<rparr> =
     ([CloseAttempted SSE ''a'' True, CloseAttempted SSE ''b'' False,
       CloseAttempted Streamable ''c'' True, WalletClosed, ProcessExit 0],
      \<lparr> streamable = [], sse = [(''b'', \<lparr>sessionId = Some ''b''\<rparr>)] \<rparr>)"
  using shutdown_attempts_every_session
    [of "\<lparr> streamable = [(''c'', \<lparr>sessionId = Some ''c''\<rparr>)],
           sse = [(''a'', \<lparr>sessionId = Some ''a''\<rparr>), (''b'', \<lparr>sessionId = Some ''b''\<rparr>)] \<rparr>"
        "\<lambda>kind t. sessionId t \<noteq> Some ''b''"]
  by simp

lemma app_mcp_error_has_no_data:
  "fst (app_mcp cfg env req ts) = JsonRpcError s c m d i \<Longrightarrow> d = None"
  by (auto simp: app_mcp_def Let_def internal_server_error_def
      split: if_splits lookup.splits bound_outcome.splits fresh_outcome.splits option.splits)

lemma app_messages_unknown_session:
  assumes "map_of (sse ts) (session_key req) = None"
  shows "snd (app_messages outcome req ts) = ts"
    and "is_error (fst (app_messages outcome req ts))"
    and "\<not> List.member Object_prototype_names (session_key req) \<Longrightarrow>
           fst (app_messages outcome req ts) =
             JsonRpcError 400 (- 32000) (''No transport found for sessionId '' @ session_key req)
               None (body_id req)"
  using assms by (auto simp: app_messages_def js_lookup_def)

lemma app_messages_keeps_registry: "snd (app_messages outcome req ts) = ts"
  by (auto simp: app_messages_def split: lookup.splits post_outcome.splits)

text \<open>
  Claim C1 at a failing input. Authentication is on with the key \<^verbatim>\<open>s3cret\<close>, and the
  request carries no \<^verbatim>\<open>Authorization\<close> header. The stream endpoint answers 401 and
  touches nothing. The push-pair endpoints never look at the credential: the same request
  posted to \<^verbatim>\<open>/messages\<close> for the open session \<^verbatim>\<open>a\<close> is handed to that session's
  transport, and a \<^verbatim>\<open>GET /sse\<close> without a credential registers a new session.
\<close>

theorem push_pair_skips_authentication:
  "config_ok \<lparr> shouldCheckAuth = True, API_KEY = Some ''s3cret'' \<rparr> \<and>
   unauthorized \<lparr> shouldCheckAuth = True, API_KEY = Some ''s3cret'' \<rparr>
     \<lparr> verb = ''POST'', headers = Map.empty, query_sessionId = Some ''a'',
       body = JObject [(''method'', JString ''tools/call'')] \<rparr> \<and>
   app_mcp \<lparr> shouldCheckAuth = True, API_KEY = Some ''s3cret'' \<rparr>
     \<lparr> isInitializeRequest = (\<lambda>b. False), connect_error = None, fresh = NotInitialized,
       bound = Answered \<rparr>
     \<lparr> verb = ''POST'', headers = Map.empty, query_sessionId = Some ''a'',
       body = JObject [(''method'', JString ''tools/call'')] \<rparr>
     \<lparr> streamable = [], sse = [(''a'', \<lparr>sessionId = Some ''a''\<rparr>)] \<rparr> =
     (JsonRpcError 401 (- 32000) ''Unauthorized'' None JNull,
      \<lparr> streamable = [], sse = [(''a'', \<lparr>sessionId = Some ''a''\<rparr>)] \<rparr>) \<and>
   app_messages PostAnswered
     \<lparr> verb = ''POST'', headers = Map.empty, query_sessionId = Some ''a'',
       body = JObject [(''method'', JString ''tools/call'')] \<rparr>
     \<lparr> streamable = [], sse = [(''a'', \<lparr>sessionId = Some ''a''\<rparr>)] \<rparr> =
     (FromTransport, \<lparr> streamable = [], sse = [(''a'', \<lparr>sessionId = Some ''a''\<rparr>)] \<rparr>) \<and>
   app_sse \<lparr> new_sessionId = ''b'', sse_connect = Connected \<rparr>
     \<lparr> verb = ''GET'', headers = Map.empty, query_sessionId = None, body = JUndefined \<rparr>
     \<lparr> streamable = [], sse = [(''a'', \<lparr>sessionId = Some ''a''\<rparr>)] \<rparr> =
     (EventStream,
      \<lparr> streamable = [],
        sse = [(''a'', \<lparr>sessionId = Some ''a''\<rparr>), (''b'', \<lparr>sessionId = Some ''b''\<rparr>)] \<rparr>)"
  by (simp add: config_ok_def unauthorized_def authHeader_def bearer_def app_mcp_def
      app_messages_def app_sse_def session_key_def js_lookup_def)

text \<open>
  Claim C2 at a failing input. When \<^verbatim>\<open>handlePostMessage\<close> of an open push-pair session
  throws before the response headers are sent, the 500 response carries the text of the
  exception in its \<^verbatim>\<open>data\<close> field. (The stream endpoint never fills that field:
  \<open>app_mcp_error_has_no_data\<close>.)
\<close>

theorem push_pair_error_carries_exception_text:
  "app_messages (PostThrew ''connect ECONNREFUSED 10.0.0.5:8080'' False)
     \<lparr> verb = ''POST'', headers = Map.empty, query_sessionId = Some ''a'',
       body = JObject [(''id'', JNumber (Finite 7)), (''method'', JString ''tools/call'')] \<rparr>
     \<lparr> streamable = [], sse = [(''a'', \<lparr>sessionId = Some ''a''\<rparr>)] \<rparr> =
     (JsonRpcError 500 (- 32603) ''Error processing message''
        (Some ''connect ECONNREFUSED 10.0.0.5:8080'') (JNumber (Finite 7)),
      \<lparr> streamable = [], sse = [(''a'', \<lparr>sessionId = Some ''a''\<rparr>)] \<rparr>)"
  by (simp add: app_messages_def session_key_def js_lookup_def body_id_def)

text \<open>
  Claim C5 at a failing input. No push-pair session is open, and the request names the
  session \<^verbatim>\<open>constructor\<close>. The lookup in the object literal finds the inherited
  \<^verbatim>\<open>Object.prototype.constructor\<close>, the handler takes the branch for a found transport,
  and the answer is the 500 of its catch block, not the 400 of the branch for a missing
  transport. Nothing is registered and nothing else changes
  (\<open>app_messages_unknown_session\<close> has the general statement).
\<close>

theorem unopened_session_named_like_prototype_member:
  "app_messages PostAnswered
     \<lparr> verb = ''POST'', headers = Map.empty, query_sessionId = Some ''constructor'',
       body = JObject [(''id'', JNumber (Finite 1)), (''method'', JString ''tools/call'')] \<rparr>
     \<lparr> streamable = [], sse = [] \<rparr> =
     (JsonRpcError 500 (- 32603) ''Error processing message''
        (Some ''transport.handlePostMessage is not a function'') (JNumber (Finite 1)),
      \<lparr> streamable = [], sse = [] \<rparr>)"
  by (simp add: app_messages_def session_key_def js_lookup_def body_id_def
      Object_prototype_names_def)

end
